theory Spec2Isabelle
  imports Complex_Main
begin

section \<open>JavaScript scalar values\<close>

text \<open>
  The grammar compares the values a column resolver returns with the values a clause
  carries, using the language's own operators: \<open>==\<close>, \<open>!=\<close>, the four ordering
  operators, strict equality inside \<open>Array.prototype.indexOf\<close>, and \<open>&&\<close>, \<open>||\<close>
  in the reduction. The values are the scalars: \<open>undefined\<close>, \<open>null\<close>, booleans, numbers
  and strings (objects, symbols and big integers are left out: a resolver returns a
  scalar, and a clause carries scalars).

  A number is a binary64 value. The operators used here only compare numbers, and a
  comparison of two doubles is the comparison of the rationals they denote, so a finite
  number is modelled by its rational value (\<open>-0\<close> and \<open>+0\<close>, which no operator used here
  distinguishes, are both \<open>Finite 0\<close>). A string is a list of code units; a \<open>char\<close> stands
  for a code unit below 256.
\<close>

datatype number = NaN | PosInfinity | NegInfinity | Finite rat

datatype jsval = JUndefined | JNull | JBool bool | JNum number | JStr string

subsection \<open>Conversion of a string to a number\<close>

text \<open>
  \<open>StringToNumber\<close> of the language: surrounding white space is dropped, the empty
  string is \<open>0\<close>, the rest must be a signed decimal literal (with optional fraction and
  exponent), a signed \<open>Infinity\<close>, or an unsigned binary, octal or hexadecimal integer;
  anything else is \<open>NaN\<close>. The mathematical value is rounded to the nearest double, ties
  to even.
\<close>

definition StrWhiteSpaceChar :: "char \<Rightarrow> bool" where
  "StrWhiteSpaceChar c =
     (let n = (of_char c :: nat) in (9 \<le> n \<and> n \<le> 13) \<or> n = 32 \<or> n = 160)"

definition trim_white_space :: "string \<Rightarrow> string" where
  "trim_white_space s =
     rev (dropWhile StrWhiteSpaceChar (rev (dropWhile StrWhiteSpaceChar s)))"

definition digit_value :: "char \<Rightarrow> int option" where
  "digit_value c =
     (let n = (of_char c :: int) in
      if 48 \<le> n \<and> n \<le> 57 then Some (n - 48)
      else if 97 \<le> n \<and> n \<le> 102 then Some (n - 87)
      else if 65 \<le> n \<and> n \<le> 70 then Some (n - 55)
      else None)"

fun digits_value :: "int \<Rightarrow> string \<Rightarrow> int \<Rightarrow> int option" where
  "digits_value b [] acc = Some acc"
| "digits_value b (c # cs) acc =
     (case digit_value c of
        None \<Rightarrow> None
      | Some d \<Rightarrow> if d < b then digits_value b cs (acc * b + d) else None)"

definition digits :: "int \<Rightarrow> string \<Rightarrow> int option" where
  "digits b s = (if s = [] then None else digits_value b s 0)"

function bit_length :: "int \<Rightarrow> int" where
  "bit_length n = (if n \<le> 0 then 0 else 1 + bit_length (n div 2))"
  by pat_completeness auto
termination
  by (relation "measure nat") auto

declare bit_length.simps [simp del]

definition round_half_even :: "int \<Rightarrow> int \<Rightarrow> int" where
  "round_half_even num den =
     (let n = num div den; r = num mod den in
      if den < 2 * r \<or> (2 * r = den \<and> odd n) then n + 1 else n)"

text \<open>
  The double nearest to \<open>p / q\<close> for \<open>p \<ge> 0\<close> and \<open>q > 0\<close>: \<open>e\<close> is the binary exponent of the
  quotient, not below that of the smallest normal number, the significand is rounded to
  an integer of at most 53 bits, and a result of \<open>2 ^ 1024\<close> or more is infinite. The
  result is \<open>None\<close> for an infinite value.
\<close>

definition round_to_double :: "int \<Rightarrow> int \<Rightarrow> rat option" where
  "round_to_double p q =
     (if p = 0 then Some 0
      else
        let d = bit_length p - bit_length q;
            above = (if 0 \<le> d then q * 2 ^ nat d \<le> p else q \<le> p * 2 ^ nat (- d));
            e = max (if above then d else d - 1) (- 1022);
            k = e - 52;
            m = (if 0 \<le> k then round_half_even p (q * 2 ^ nat k)
                 else round_half_even (p * 2 ^ nat (- k)) q)
        in if 0 \<le> k
           then (if 2 ^ 1024 \<le> m * 2 ^ nat k then None else Some (of_int (m * 2 ^ nat k)))
           else Some (of_int m / of_int (2 ^ nat (- k))))"

definition signed_number :: "bool \<Rightarrow> rat option \<Rightarrow> number" where
  "signed_number negative v =
     (case v of
        None \<Rightarrow> (if negative then NegInfinity else PosInfinity)
      | Some x \<Rightarrow> Finite (if negative then - x else x))"

definition NonDecimalIntegerLiteral :: "string \<Rightarrow> int option" where
  "NonDecimalIntegerLiteral s =
     (case s of
        z # x # ds \<Rightarrow>
          if z \<noteq> CHR ''0'' then None
          else if x = CHR ''b'' \<or> x = CHR ''B'' then digits 2 ds
          else if x = CHR ''o'' \<or> x = CHR ''O'' then digits 8 ds
          else if x = CHR ''x'' \<or> x = CHR ''X'' then digits 16 ds
          else None
      | _ \<Rightarrow> None)"

definition SignedInteger :: "string \<Rightarrow> int option" where
  "SignedInteger s =
     (case s of
        [] \<Rightarrow> None
      | c # cs \<Rightarrow>
          if c = CHR ''+'' then digits 10 cs
          else if c = CHR ''-'' then map_option uminus (digits 10 cs)
          else digits 10 s)"

definition is_exponent_indicator :: "char \<Rightarrow> bool" where
  "is_exponent_indicator c = (c = CHR ''e'' \<or> c = CHR ''E'')"

text \<open>
  An unsigned decimal literal other than \<open>Infinity\<close>, as a pair \<open>(n, x)\<close> that stands
  for \<open>n * 10 ^ x\<close>: digits with an optional fraction, or a fraction alone, then an
  optional exponent part.
\<close>

definition StrUnsignedDecimalLiteral :: "string \<Rightarrow> (int \<times> int) option" where
  "StrUnsignedDecimalLiteral s =
     (let mant = takeWhile (\<lambda>c. \<not> is_exponent_indicator c) s;
          rest = dropWhile (\<lambda>c. \<not> is_exponent_indicator c) s;
          ipart = takeWhile (\<lambda>c. c \<noteq> CHR ''.'') mant;
          dotted = dropWhile (\<lambda>c. c \<noteq> CHR ''.'') mant;
          fpart = (if dotted = [] then [] else tl dotted);
          expo = (if rest = [] then Some 0 else SignedInteger (tl rest))
      in if ipart = [] \<and> fpart = [] then None
         else
           case (digits_value 10 (ipart @ fpart) 0, expo) of
             (Some n, Some x) \<Rightarrow> Some (n, x - int (length fpart))
           | _ \<Rightarrow> None)"

definition decimal_value :: "bool \<Rightarrow> string \<Rightarrow> number" where
  "decimal_value negative s =
     (if s = ''Infinity'' then (if negative then NegInfinity else PosInfinity)
      else
        case StrUnsignedDecimalLiteral s of
          None \<Rightarrow> NaN
        | Some (n, x) \<Rightarrow>
            signed_number negative
              (if 0 \<le> x then round_to_double (n * 10 ^ nat x) 1
               else round_to_double n (10 ^ nat (- x))))"

definition StringToNumber :: "string \<Rightarrow> number" where
  "StringToNumber str =
     (let s = trim_white_space str in
      case s of
        [] \<Rightarrow> Finite 0
      | c # cs \<Rightarrow>
          (case NonDecimalIntegerLiteral s of
             Some n \<Rightarrow> signed_number False (round_to_double n 1)
           | None \<Rightarrow>
               if c = CHR ''+'' then decimal_value False cs
               else if c = CHR ''-'' then decimal_value True cs
               else decimal_value False s))"

subsection \<open>The abstract operations behind the operators\<close>

fun ToBoolean :: "jsval \<Rightarrow> bool" where
  "ToBoolean JUndefined = False"
| "ToBoolean JNull = False"
| "ToBoolean (JBool b) = b"
| "ToBoolean (JNum NaN) = False"
| "ToBoolean (JNum (Finite x)) = (x \<noteq> 0)"
| "ToBoolean (JNum _) = True"
| "ToBoolean (JStr s) = (s \<noteq> [])"

fun ToNumber :: "jsval \<Rightarrow> number" where
  "ToNumber JUndefined = NaN"
| "ToNumber JNull = Finite 0"
| "ToNumber (JBool b) = Finite (if b then 1 else 0)"
| "ToNumber (JNum n) = n"
| "ToNumber (JStr s) = StringToNumber s"

text \<open>\<open>Number::equal\<close> and \<open>Number::lessThan\<close>; the latter is undefined on \<open>NaN\<close>.\<close>

fun number_equal :: "number \<Rightarrow> number \<Rightarrow> bool" where
  "number_equal NaN _ = False"
| "number_equal _ NaN = False"
| "number_equal x y = (x = y)"

fun number_lessThan :: "number \<Rightarrow> number \<Rightarrow> bool option" where
  "number_lessThan NaN _ = None"
| "number_lessThan _ NaN = None"
| "number_lessThan PosInfinity _ = Some False"
| "number_lessThan _ NegInfinity = Some False"
| "number_lessThan NegInfinity _ = Some True"
| "number_lessThan _ PosInfinity = Some True"
| "number_lessThan (Finite x) (Finite y) = Some (x < y)"

fun IsStrictlyEqual :: "jsval \<Rightarrow> jsval \<Rightarrow> bool" where
  "IsStrictlyEqual JUndefined JUndefined = True"
| "IsStrictlyEqual JNull JNull = True"
| "IsStrictlyEqual (JBool a) (JBool b) = (a = b)"
| "IsStrictlyEqual (JNum a) (JNum b) = number_equal a b"
| "IsStrictlyEqual (JStr a) (JStr b) = (a = b)"
| "IsStrictlyEqual _ _ = False"

text \<open>
  \<open>IsLooselyEqual\<close>: values of one type are compared strictly, \<open>null\<close> and \<open>undefined\<close>
  equal each other and nothing else, a boolean is first converted to a number, and a
  number is compared with a string through the string's numeric value.
\<close>

fun number_loosely_equal :: "number \<Rightarrow> jsval \<Rightarrow> bool" where
  "number_loosely_equal n (JNum m) = number_equal n m"
| "number_loosely_equal n (JStr s) = number_equal n (StringToNumber s)"
| "number_loosely_equal n (JBool b) = number_equal n (ToNumber (JBool b))"
| "number_loosely_equal n _ = False"

fun IsLooselyEqual :: "jsval \<Rightarrow> jsval \<Rightarrow> bool" where
  "IsLooselyEqual JUndefined y = (y = JUndefined \<or> y = JNull)"
| "IsLooselyEqual JNull y = (y = JUndefined \<or> y = JNull)"
| "IsLooselyEqual (JBool a) y = number_loosely_equal (ToNumber (JBool a)) y"
| "IsLooselyEqual (JNum n) y = number_loosely_equal n y"
| "IsLooselyEqual (JStr s) (JStr t) = (s = t)"
| "IsLooselyEqual (JStr s) (JNum m) = number_equal (StringToNumber s) m"
| "IsLooselyEqual (JStr s) (JBool b) = number_equal (StringToNumber s) (ToNumber (JBool b))"
| "IsLooselyEqual (JStr s) _ = False"

text \<open>Strings are ordered by their code units, a proper prefix first.\<close>

fun string_lessThan :: "string \<Rightarrow> string \<Rightarrow> bool" where
  "string_lessThan _ [] = False"
| "string_lessThan [] (y # ys) = True"
| "string_lessThan (x # xs) (y # ys) =
     (if (of_char x :: nat) < of_char y then True
      else if (of_char y :: nat) < of_char x then False
      else string_lessThan xs ys)"

fun IsLessThan :: "jsval \<Rightarrow> jsval \<Rightarrow> bool option" where
  "IsLessThan (JStr s) (JStr t) = Some (string_lessThan s t)"
| "IsLessThan x y = number_lessThan (ToNumber x) (ToNumber y)"

text \<open>The operators of the source, on scalars.\<close>

definition js_eq :: "jsval \<Rightarrow> jsval \<Rightarrow> bool" where
  "js_eq x y = IsLooselyEqual x y"

definition js_ne :: "jsval \<Rightarrow> jsval \<Rightarrow> bool" where
  "js_ne x y = (\<not> IsLooselyEqual x y)"

definition js_lt :: "jsval \<Rightarrow> jsval \<Rightarrow> bool" where
  "js_lt x y = (IsLessThan x y = Some True)"

definition js_gt :: "jsval \<Rightarrow> jsval \<Rightarrow> bool" where
  "js_gt x y = (IsLessThan y x = Some True)"

definition js_le :: "jsval \<Rightarrow> jsval \<Rightarrow> bool" where
  "js_le x y = (IsLessThan y x = Some False)"

definition js_ge :: "jsval \<Rightarrow> jsval \<Rightarrow> bool" where
  "js_ge x y = (IsLessThan x y = Some False)"

definition js_and :: "jsval \<Rightarrow> jsval \<Rightarrow> jsval" where
  "js_and x y = (if ToBoolean x then y else x)"

definition js_or :: "jsval \<Rightarrow> jsval \<Rightarrow> jsval" where
  "js_or x y = (if ToBoolean x then x else y)"

text \<open>
  \<open>Array.prototype.indexOf\<close> on an array without holes: the index of the first element
  strictly equal to the searched value, \<open>-1\<close> when there is none.
\<close>

fun indexOf_from :: "int \<Rightarrow> jsval list \<Rightarrow> jsval \<Rightarrow> int" where
  "indexOf_from k [] v = - 1"
| "indexOf_from k (x # xs) v = (if IsStrictlyEqual x v then k else indexOf_from (k + 1) xs v)"

definition indexOf :: "jsval list \<Rightarrow> jsval \<Rightarrow> int" where
  "indexOf xs v = indexOf_from 0 xs v"

section \<open>The grammar, its clauses and its state\<close>

text \<open>
  A column resolver is a function of the caller: it may read and change the caller's
  data (the type \<open>'w\<close>), and it may throw. The only field of a grammar is its resolver.
  The closures a grammar compiles keep a reference to the grammar, not a copy of it, so
  grammars live in a heap and a closure reads the heap when it runs. A resolver is always
  a function, and it has no access to the heap: it cannot replace itself while a
  predicate runs. \<open>console\<close> holds the lines written with \<open>console.error\<close>.
\<close>

type_synonym addr = nat

datatype js_error = TypeError | Thrown jsval

type_synonym 'w resolver = "string \<Rightarrow> 'w \<Rightarrow> (js_error + jsval) \<times> 'w"

record 'w ScriptGrammar =
  columnResolver :: "'w resolver"

record 'w state =
  heap :: "addr \<Rightarrow> 'w ScriptGrammar"
  world :: 'w
  console :: "string list"

text \<open>
  A computation runs on a state and ends with a value (\<open>Inr\<close>) or a thrown error
  (\<open>Inl\<close>). A function value of the source with no parameters is such a computation.
\<close>

type_synonym ('w, 'a) js = "'w state \<Rightarrow> (js_error + 'a) \<times> 'w state"

definition js_return :: "'a \<Rightarrow> ('w, 'a) js" where
  "js_return x = (\<lambda>s. (Inr x, s))"

definition js_throw :: "js_error \<Rightarrow> ('w, 'a) js" where
  "js_throw e = (\<lambda>s. (Inl e, s))"

definition js_bind :: "('w, 'a) js \<Rightarrow> ('a \<Rightarrow> ('w, 'b) js) \<Rightarrow> ('w, 'b) js" where
  "js_bind m f = (\<lambda>s. case m s of (Inl e, s') \<Rightarrow> (Inl e, s') | (Inr x, s') \<Rightarrow> f x s')"

definition console_error :: "string \<Rightarrow> ('w, unit) js" where
  "console_error msg = (\<lambda>s. (Inr (), s\<lparr>console := console s @ [msg]\<rparr>))"

text \<open>
  A clause descriptor of the query builder. \<open>type\<close>, \<open>boolean\<close>, \<open>column\<close> and
  \<open>operator\<close> are strings: the source compares \<open>boolean\<close> and \<open>operator\<close> with
  string constants by strict equality, so a missing or non-string field behaves as any
  unrecognised string does. \<open>values\<close> is an array of scalars.
\<close>

record where_clause =
  where_type :: string
  where_boolean :: string
  where_column :: string
  where_operator :: string
  where_value :: jsval
  where_values :: "jsval list"

text \<open>A query; \<open>wheres\<close> is \<open>None\<close> when the query has no such field.\<close>

record query =
  wheres :: "where_clause list option"

text \<open>
  A compiled clause: the connective and the callback the clause's method returned,
  \<open>None\<close> when the method returned \<open>undefined\<close>.
\<close>

record 'w clause =
  boolean :: string
  callback :: "('w, jsval) js option"

text \<open>Calling a value that may be \<open>undefined\<close>: a \<open>TypeError\<close> when it is.\<close>

definition call :: "('w, 'a) js option \<Rightarrow> ('w, 'a) js" where
  "call f = (case f of None \<Rightarrow> js_throw TypeError | Some g \<Rightarrow> g)"

text \<open>\<open>Array.prototype.map\<close> and \<open>Array.prototype.reduce\<close> with an initial value.\<close>

fun js_map :: "('a \<Rightarrow> ('w, 'b) js) \<Rightarrow> 'a list \<Rightarrow> ('w, 'b list) js" where
  "js_map f [] = js_return []"
| "js_map f (x # xs) = js_bind (f x) (\<lambda>y. js_bind (js_map f xs) (\<lambda>ys. js_return (y # ys)))"

fun js_reduce :: "('b \<Rightarrow> 'a \<Rightarrow> ('w, 'b) js) \<Rightarrow> 'a list \<Rightarrow> 'b \<Rightarrow> ('w, 'b) js" where
  "js_reduce f [] acc = js_return acc"
| "js_reduce f (x # xs) acc = js_bind (f acc x) (js_reduce f xs)"

section \<open>ScriptGrammar\<close>

text \<open>
  \<open>new ScriptGrammar(options)\<close>, with \<open>this\<close> the address of the new object;
  \<open>options\<close> is the \<open>columnResolver\<close> option, \<open>None\<close> when it is not given.
\<close>

definition constructor :: "addr \<Rightarrow> 'w resolver option \<Rightarrow> ('w, addr) js" where
  "constructor this options =
     (\<lambda>s. (Inr this,
        s\<lparr>heap := (heap s)(this :=
             \<lparr>columnResolver =
                (case options of None \<Rightarrow> (\<lambda>_ w. (Inr JNull, w)) | Some r \<Rightarrow> r)\<rparr>)\<rparr>))"

definition setColumnResolver :: "addr \<Rightarrow> 'w resolver \<Rightarrow> ('w, addr) js" where
  "setColumnResolver this resolver =
     (\<lambda>s. (Inr this,
        s\<lparr>heap := (heap s)(this := (heap s this)\<lparr>columnResolver := resolver\<rparr>)\<rparr>))"

text \<open>
  \<open>column(name)\<close>: the closure it returns reads \<open>this.columnResolver\<close> when it runs
  and calls it with \<open>name\<close>.
\<close>

definition column :: "addr \<Rightarrow> string \<Rightarrow> ('w, jsval) js" where
  "column this name =
     (\<lambda>s. case columnResolver (heap s this) name (world s) of
             (r, w) \<Rightarrow> (r, s\<lparr>world := w\<rparr>))"

definition whereBasic :: "addr \<Rightarrow> query \<Rightarrow> where_clause \<Rightarrow> ('w, jsval) js option" where
  "whereBasic this query wh =
     (let value = where_value wh;
          column = column this (where_column wh);
          operator = where_operator wh
      in if operator = ''='' then
           Some (js_bind column (\<lambda>c. js_return (JBool (js_eq c value))))
         else if operator = ''!='' then
           Some (js_bind column (\<lambda>c. js_return (JBool (js_ne c value))))
         else if operator = ''<>'' then
           Some (js_bind column (\<lambda>c. js_return (JBool (js_ne c value))))
         else if operator = ''>'' then
           Some (js_bind column (\<lambda>c. js_return (JBool (js_gt c value))))
         else if operator = ''>='' then
           Some (js_bind column (\<lambda>c. js_return (JBool (js_ge c value))))
         else if operator = ''<'' then
           Some (js_bind column (\<lambda>c. js_return (JBool (js_lt c value))))
         else if operator = ''<='' then
           Some (js_bind column (\<lambda>c. js_return (JBool (js_le c value))))
         else None)"

definition whereIn :: "addr \<Rightarrow> query \<Rightarrow> where_clause \<Rightarrow> ('w, jsval) js option" where
  "whereIn this query wh =
     (let values = where_values wh;
          column = column this (where_column wh)
      in Some (js_bind column (\<lambda>c. js_return (JBool (indexOf values c \<ge> 0)))))"

definition whereNotIn :: "addr \<Rightarrow> query \<Rightarrow> where_clause \<Rightarrow> ('w, jsval) js option" where
  "whereNotIn this query wh =
     (let values = where_values wh;
          column = column this (where_column wh)
      in Some (js_bind column (\<lambda>c. js_return (JBool (indexOf values c = - 1)))))"

definition whereNull :: "addr \<Rightarrow> query \<Rightarrow> where_clause \<Rightarrow> ('w, jsval) js option" where
  "whereNull this query wh =
     (let column = column this (where_column wh)
      in Some (js_bind column (\<lambda>c. js_return (JBool (indexOf [JStr [], JNull] c \<ge> 0)))))"

definition whereNotNull :: "addr \<Rightarrow> query \<Rightarrow> where_clause \<Rightarrow> ('w, jsval) js option" where
  "whereNotNull this query wh =
     (let column = column this (where_column wh)
      in Some (js_bind column (\<lambda>c. js_return (JBool (indexOf [JStr [], JNull] c = - 1)))))"

text \<open>
  \<open>this[key]\<close> for a key that starts with \<open>where\<close>: the five clause methods are the
  only properties of a grammar with such a name.
\<close>

definition where_method ::
  "string \<Rightarrow> (addr \<Rightarrow> query \<Rightarrow> where_clause \<Rightarrow> ('w, jsval) js option) option" where
  "where_method key =
     (if key = ''whereBasic'' then Some whereBasic
      else if key = ''whereIn'' then Some whereIn
      else if key = ''whereNotIn'' then Some whereNotIn
      else if key = ''whereNull'' then Some whereNull
      else if key = ''whereNotNull'' then Some whereNotNull
      else None)"

text \<open>
  The function \<open>compileWheresToArray\<close> maps over the clauses: it looks the method up,
  writes two lines to the console when there is none, and calls it all the same, which
  throws when there is none.
\<close>

definition compile_where :: "addr \<Rightarrow> query \<Rightarrow> where_clause \<Rightarrow> ('w, 'w clause) js" where
  "compile_where this query wh =
     (let callback = where_method (''where'' @ where_type wh) in
      js_bind
        (if callback = None
         then console_error
                (''Method ScriptGrammar::where'' @ where_type wh @ ''() is not defined.'')
         else js_return ())
        (\<lambda>_. js_bind
          (if callback = None
           then console_error
                  (''Method ScriptGrammar::where'' @ where_type wh @ ''() is not a function.'')
           else js_return ())
          (\<lambda>_. case callback of
                  None \<Rightarrow> js_throw TypeError
                | Some m \<Rightarrow>
                    js_return \<lparr>boolean = where_boolean wh, callback = m this query wh\<rparr>)))"

definition compileWheresToArray :: "addr \<Rightarrow> query \<Rightarrow> ('w, 'w clause list) js" where
  "compileWheresToArray this query =
     (case wheres query of
        None \<Rightarrow> js_throw TypeError
      | Some ws \<Rightarrow> js_map (compile_where this query) ws)"

definition evaluateWhereClauses :: "query \<Rightarrow> 'w clause list \<Rightarrow> ('w, jsval) js" where
  "evaluateWhereClauses query clauses =
     js_reduce
       (\<lambda>result clause.
          if result = JNull then call (callback clause)
          else
            js_bind (call (callback clause))
              (\<lambda>value.
                 if boolean clause = ''and'' then js_return (js_and result value)
                 else if boolean clause = ''or'' then js_return (js_or result value)
                 else js_return JUndefined))
       clauses JNull"

definition compileWheres :: "addr \<Rightarrow> query \<Rightarrow> ('w, ('w, jsval) js) js" where
  "compileWheres this query =
     (case wheres query of
        None \<Rightarrow> js_return (js_return (JBool True))
      | Some ws \<Rightarrow>
          if length ws = 0 then js_return (js_return (JBool True))
          else
            js_bind (compileWheresToArray this query)
              (\<lambda>clauses.
                 if length clauses = 0 then js_return (js_return (JBool True))
                 else js_return (evaluateWhereClauses query clauses)))"

definition compile :: "addr \<Rightarrow> query \<Rightarrow> ('w, ('w, jsval) js) js" where
  "compile this query = compileWheres this query"

section \<open>The reduction as the specification words it\<close>

text \<open>
  The specification describes the predicate as a left fold: the first clause's result
  becomes the accumulator, whatever that clause's connective is, and every later clause's
  result is joined to the accumulator by that clause's own connective, conjunction for
  \<open>and\<close> and disjunction for \<open>or\<close>. \<open>spec_combine\<close> is the fold over the later
  clauses; it is only meant for connectives that are one of the two. Of an empty list
  the result is the unset accumulator, \<open>null\<close>.
\<close>

fun spec_combine :: "bool \<Rightarrow> 'w clause list \<Rightarrow> ('w, bool) js" where
  "spec_combine acc [] = js_return acc"
| "spec_combine acc (c # cs) =
     js_bind (call (callback c))
       (\<lambda>v. spec_combine
              (if boolean c = ''and'' then acc \<and> ToBoolean v else acc \<or> ToBoolean v) cs)"

definition spec_fold :: "'w clause list \<Rightarrow> ('w, jsval) js" where
  "spec_fold clauses =
     (case clauses of
        [] \<Rightarrow> js_return JNull
      | c # cs \<Rightarrow>
          js_bind (call (callback c))
            (\<lambda>v. js_bind (spec_combine (ToBoolean v) cs) (\<lambda>b. js_return (JBool b))))"

section \<open>Notions used in the proofs\<close>

text \<open>
  Every callback the five clause methods return has one shape: it runs the closure of
  \<open>column\<close> and applies a test to the value.
\<close>

definition column_test :: "addr \<Rightarrow> string \<Rightarrow> (jsval \<Rightarrow> bool) \<Rightarrow> ('w, jsval) js" where
  "column_test this name f = js_bind (column this name) (\<lambda>c. js_return (JBool (f c)))"

definition shaped :: "addr \<Rightarrow> where_clause \<Rightarrow> 'w clause \<Rightarrow> bool" where
  "shaped this wh c =
     (boolean c = where_boolean wh \<and>
      (callback c = None \<or> (\<exists>f. callback c = Some (column_test this (where_column wh) f))))"

text \<open>A computation that reads nothing of the state and only adds lines to the console.\<close>

definition console_only :: "('w, 'a) js \<Rightarrow> bool" where
  "console_only m = (\<exists>R L. \<forall>s. m s = (R, s\<lparr>console := console s @ L\<rparr>))"

text \<open>
  A computation that depends on the state only through the resolver of the grammar at
  \<open>this\<close> and the caller's data, and changes the caller's data only.
\<close>

definition lift_world :: "('w \<Rightarrow> (js_error + 'a) \<times> 'w) \<Rightarrow> ('w, 'a) js" where
  "lift_world m = (\<lambda>s. case m (world s) of (x, w) \<Rightarrow> (x, s\<lparr>world := w\<rparr>))"

definition resolver_local :: "addr \<Rightarrow> ('w, 'a) js \<Rightarrow> bool" where
  "resolver_local this m = (\<exists>F. \<forall>s. m s = lift_world (F (columnResolver (heap s this))) s)"

section \<open>Example data\<close>

text \<open>
  A state in which every grammar has the resolver \<open>r\<close>, and three resolvers: one that
  reads a row, one that also counts its calls, and one that returns a fixed value.
\<close>

definition example_state :: "'w resolver \<Rightarrow> 'w \<Rightarrow> 'w state" where
  "example_state r w = \<lparr>heap = (\<lambda>_. \<lparr>columnResolver = r\<rparr>), world = w, console = []\<rparr>"

definition row_resolver :: "(string \<Rightarrow> jsval) resolver" where
  "row_resolver = (\<lambda>name row. (Inr (row name), row))"

definition counting_resolver :: "(string \<Rightarrow> jsval) \<Rightarrow> nat resolver" where
  "counting_resolver row = (\<lambda>name n. (Inr (row name), Suc n))"

definition constant_resolver :: "jsval \<Rightarrow> unit resolver" where
  "constant_resolver v = (\<lambda>name u. (Inr v, u))"

definition basic_where :: "string \<Rightarrow> string \<Rightarrow> string \<Rightarrow> jsval \<Rightarrow> where_clause" where
  "basic_where b c operator v =
     \<lparr>where_type = ''Basic'', where_boolean = b, where_column = c,
      where_operator = operator, where_value = v, where_values = []\<rparr>"

definition list_where :: "string \<Rightarrow> string \<Rightarrow> string \<Rightarrow> jsval list \<Rightarrow> where_clause" where
  "list_where t b c vs =
     \<lparr>where_type = t, where_boolean = b, where_column = c,
      where_operator = [], where_value = JUndefined, where_values = vs\<rparr>"

definition example_row :: "string \<Rightarrow> string \<Rightarrow> jsval" where
  "example_row status name =
     (if name = ''status'' then JStr status
      else if name = ''age'' then JNum (Finite 17)
      else JNull)"

definition adult_query :: query where
  "adult_query =
     \<lparr>wheres = Some [basic_where ''and'' ''status'' ''='' (JStr ''active''),
                     basic_where ''and'' ''age'' ''>='' (JNum (Finite 18))]\<rparr>"

definition adult_clauses :: "(string \<Rightarrow> jsval) clause list" where
  "adult_clauses =
     [\<lparr>boolean = ''and'',
        callback = whereBasic 0 adult_query (basic_where ''and'' ''status'' ''='' (JStr ''active''))\<rparr>,
      \<lparr>boolean = ''and'',
        callback = whereBasic 0 adult_query (basic_where ''and'' ''age'' ''>='' (JNum (Finite 18)))\<rparr>]"

definition age_query :: query where
  "age_query = \<lparr>wheres = Some [basic_where ''and'' ''age'' ''='' (JNum (Finite 30))]\<rparr>"

definition like_query :: query where
  "like_query = \<lparr>wheres = Some [basic_where ''and'' ''age'' ''like'' (JNum (Finite 30))]\<rparr>"

section \<open>Running computations\<close>

lemma js_bind_apply:
  "js_bind m f s = (case m s of (Inl e, s') \<Rightarrow> (Inl e, s') | (Inr x, s') \<Rightarrow> f x s')"
  by (simp add: js_bind_def)

lemma js_return_apply: "js_return x s = (Inr x, s)"
  by (simp add: js_return_def)

lemma js_throw_apply: "js_throw e s = (Inl e, s)"
  by (simp add: js_throw_def)

lemma column_test_apply:
  "column_test this name f s =
     (case columnResolver (heap s this) name (world s) of
        (Inl e, w) \<Rightarrow> (Inl e, s\<lparr>world := w\<rparr>)
      | (Inr v, w) \<Rightarrow> (Inr (JBool (f v)), s\<lparr>world := w\<rparr>))"
  by (simp add: column_test_def js_bind_def js_return_def column_def split: prod.splits sum.splits)

lemmas evaluation =
  compile_def compileWheres_def compileWheresToArray_def compile_where_def where_method_def
  evaluateWhereClauses_def js_bind_apply js_return_apply js_throw_apply console_error_def
  call_def column_def whereBasic_def whereIn_def whereNotIn_def whereNull_def whereNotNull_def
  setColumnResolver_def basic_where_def list_where_def example_state_def
  constant_resolver_def counting_resolver_def row_resolver_def

lemma StringToNumber_1: "StringToNumber ''1'' = Finite 1"
  by code_simp

section \<open>Searching an array\<close>

lemma indexOf_from_range: "0 \<le> k \<Longrightarrow> indexOf_from k xs v = - 1 \<or> k \<le> indexOf_from k xs v"
proof (induction xs arbitrary: k)
  case Nil
  show ?case by simp
next
  case (Cons x xs)
  from Cons.prems have "0 \<le> k + 1" by simp
  from Cons.IH [OF this] Cons.prems show ?case by auto
qed

lemma indexOf_absent: "(indexOf xs v = - 1) = (\<not> 0 \<le> indexOf xs v)"
  using indexOf_from_range [of 0 xs v] by (auto simp: indexOf_def)

lemma indexOf_from_member:
  "0 \<le> k \<Longrightarrow> (0 \<le> indexOf_from k xs v) = (\<exists>x\<in>set xs. IsStrictlyEqual x v)"
proof (induction xs arbitrary: k)
  case Nil
  show ?case by simp
next
  case (Cons x xs)
  from Cons.prems have "0 \<le> k + 1" by simp
  from Cons.IH [OF this] Cons.prems show ?case by simp
qed

lemma indexOf_null: "(0 \<le> indexOf [JStr [], JNull] v) = (v = JStr [] \<or> v = JNull)"
  by (cases v) (auto simp: indexOf_def)

section \<open>The shape of a compiled clause\<close>

lemma whereBasic_shaped:
  "whereBasic this q wh = None \<or>
   (\<exists>f. whereBasic this q wh = Some (column_test this (where_column wh) f))"
proof -
  let ?S = "\<lambda>f. Some (column_test this (where_column wh) f)"
  have "whereBasic this q wh = None
      \<or> whereBasic this q wh = ?S (\<lambda>c. js_eq c (where_value wh))
      \<or> whereBasic this q wh = ?S (\<lambda>c. js_ne c (where_value wh))
      \<or> whereBasic this q wh = ?S (\<lambda>c. js_gt c (where_value wh))
      \<or> whereBasic this q wh = ?S (\<lambda>c. js_ge c (where_value wh))
      \<or> whereBasic this q wh = ?S (\<lambda>c. js_lt c (where_value wh))
      \<or> whereBasic this q wh = ?S (\<lambda>c. js_le c (where_value wh))"
    by (simp add: whereBasic_def Let_def column_test_def)
  then show ?thesis by blast
qed

lemma whereIn_test:
  "whereIn this q wh =
     Some (column_test this (where_column wh) (\<lambda>c. 0 \<le> indexOf (where_values wh) c))"
  by (simp add: whereIn_def column_test_def)

lemma whereNotIn_test:
  "whereNotIn this q wh =
     Some (column_test this (where_column wh) (\<lambda>c. indexOf (where_values wh) c = - 1))"
  by (simp add: whereNotIn_def column_test_def)

lemma whereNull_test:
  "whereNull this q wh =
     Some (column_test this (where_column wh) (\<lambda>c. 0 \<le> indexOf [JStr [], JNull] c))"
  by (simp add: whereNull_def column_test_def)

lemma whereNotNull_test:
  "whereNotNull this q wh =
     Some (column_test this (where_column wh) (\<lambda>c. indexOf [JStr [], JNull] c = - 1))"
  by (simp add: whereNotNull_def column_test_def)

lemma where_method_shaped:
  assumes "where_method key = Some m"
  shows "shaped this wh \<lparr>boolean = where_boolean wh, callback = m this q wh\<rparr>"
proof -
  from assms have
    "m = whereBasic \<or> m = whereIn \<or> m = whereNotIn \<or> m = whereNull \<or> m = whereNotNull"
    by (auto simp: where_method_def split: if_splits)
  then show ?thesis
    unfolding shaped_def
    using whereBasic_shaped [of this q wh]
    by (auto simp: whereIn_test whereNotIn_test whereNull_test whereNotNull_test)
qed

lemma compile_where_shaped:
  assumes "compile_where this q wh s = (Inr c, s')"
  shows "shaped this wh c"
proof (cases "where_method (''where'' @ where_type wh)
                :: (addr \<Rightarrow> query \<Rightarrow> where_clause \<Rightarrow> ('a, jsval) js option) option")
  case None
  with assms show ?thesis
    by (simp add: compile_where_def js_bind_def js_throw_def console_error_def)
next
  case (Some m)
  with assms have "c = \<lparr>boolean = where_boolean wh, callback = m this q wh\<rparr>"
    by (simp add: compile_where_def js_bind_def js_return_def)
  with where_method_shaped [OF Some] show ?thesis by simp
qed

lemma js_map_shaped:
  assumes "js_map (compile_where this q) ws s = (Inr cs, s')"
  shows "list_all2 (shaped this) ws cs"
  using assms
proof (induction ws arbitrary: cs s s')
  case Nil
  then show ?case by (simp add: js_return_def)
next
  case (Cons wh ws)
  from Cons.prems obtain c s1 cs1 where
    c: "compile_where this q wh s = (Inr c, s1)" and
    r: "js_map (compile_where this q) ws s1 = (Inr cs1, s')" and
    cs: "cs = c # cs1"
    by (auto simp: js_bind_def js_return_def split: prod.splits sum.splits)
  from compile_where_shaped [OF c] Cons.IH [OF r] cs show ?case by simp
qed

lemma compileWheresToArray_shaped:
  assumes "compileWheresToArray this q s = (Inr cs, s')"
  shows "\<exists>ws. wheres q = Some ws \<and> list_all2 (shaped this) ws cs"
  using assms
  by (auto simp: compileWheresToArray_def js_throw_def dest: js_map_shaped split: option.splits)

lemma shaped_call:
  assumes "shaped this wh c"
  shows "(\<exists>e s'. call (callback c) s = (Inl e, s'))
       \<or> (\<exists>b s'. call (callback c) s = (Inr (JBool b), s'))"
  using assms
  by (auto simp: shaped_def call_def js_throw_def column_test_apply split: prod.splits sum.splits)

section \<open>Compilation touches the console only\<close>

lemma console_only_return: "console_only (js_return x)"
  unfolding console_only_def js_return_def
  by (rule exI [of _ "Inr x"], rule exI [of _ "[]"]) simp

lemma console_only_throw: "console_only (js_throw e)"
  unfolding console_only_def js_throw_def
  by (rule exI [of _ "Inl e"], rule exI [of _ "[]"]) simp

lemma console_only_error: "console_only (console_error msg)"
  unfolding console_only_def console_error_def
  by (rule exI [of _ "Inr ()"], rule exI [of _ "[msg]"]) simp

lemma console_only_bind:
  assumes m: "console_only m" and f: "\<And>x. console_only (f x)"
  shows "console_only (js_bind m f)"
proof -
  from m obtain R L where mR: "\<And>s. m s = (R, s\<lparr>console := console s @ L\<rparr>)"
    unfolding console_only_def by blast
  show ?thesis
  proof (cases R)
    case (Inl e)
    have "\<forall>s. js_bind m f s = (Inl e, s\<lparr>console := console s @ L\<rparr>)"
      by (simp add: js_bind_def mR Inl)
    then show ?thesis unfolding console_only_def by blast
  next
    case (Inr x)
    from f [of x] obtain R' L' where fR: "\<And>s. f x s = (R', s\<lparr>console := console s @ L'\<rparr>)"
      unfolding console_only_def by blast
    have "\<forall>s. js_bind m f s = (R', s\<lparr>console := console s @ (L @ L')\<rparr>)"
      by (simp add: js_bind_def mR Inr fR)
    then show ?thesis unfolding console_only_def by blast
  qed
qed

lemma console_only_compile_where: "console_only (compile_where this q wh)"
  unfolding compile_where_def Let_def
  by (intro console_only_bind)
     (auto intro: console_only_return console_only_throw console_only_error split: option.splits)

lemma console_only_map:
  assumes "\<And>x. console_only (f x)"
  shows "console_only (js_map f xs)"
  by (induction xs) (auto intro!: console_only_bind console_only_return assms)

lemma console_only_compileWheresToArray: "console_only (compileWheresToArray this q)"
  unfolding compileWheresToArray_def
  by (auto intro: console_only_throw console_only_map console_only_compile_where
      split: option.splits)

lemma console_only_compileWheres: "console_only (compileWheres this q)"
  unfolding compileWheres_def
  by (auto intro!: console_only_bind console_only_return console_only_compileWheresToArray
      split: option.splits)

lemma console_only_compile: "console_only (compile this q)"
  by (simp add: compile_def console_only_compileWheres)

lemma whereBasic_unknown_operator:
  assumes "where_operator wh \<notin> {''='', ''!='', ''<>'', ''>'', ''>='', ''<'', ''<=''}"
  shows "whereBasic this q wh = None"
  using assms by (simp add: whereBasic_def)

lemma unknown_kind_fails:
  assumes "where_method (''where'' @ where_type wh)
             = (None :: (addr \<Rightarrow> query \<Rightarrow> where_clause \<Rightarrow> ('w, jsval) js option) option)"
  shows "compile this \<lparr>wheres = Some [wh]\<rparr> (s :: 'w state) =
           (Inl TypeError,
            s\<lparr>console := console s @
               [''Method ScriptGrammar::where'' @ where_type wh @ ''() is not defined.'',
                ''Method ScriptGrammar::where'' @ where_type wh @ ''() is not a function.'']\<rparr>)"
  using assms
  by (simp add: compile_def compileWheres_def compileWheresToArray_def compile_where_def
      js_bind_apply js_return_apply js_throw_apply console_error_def)

section \<open>A predicate reads the resolver when it runs\<close>

lemma resolver_local_return: "resolver_local this (js_return x)"
  unfolding resolver_local_def
  by (rule exI [of _ "\<lambda>r w. (Inr x, w)"]) (simp add: lift_world_def js_return_def)

lemma resolver_local_throw: "resolver_local this (js_throw e)"
  unfolding resolver_local_def
  by (rule exI [of _ "\<lambda>r w. (Inl e, w)"]) (simp add: lift_world_def js_throw_def)

lemma resolver_local_column_test: "resolver_local this (column_test this name f)"
  unfolding resolver_local_def
  by (rule exI [of _ "\<lambda>r w. case r name w of
                               (Inl e, w') \<Rightarrow> (Inl e, w')
                             | (Inr v, w') \<Rightarrow> (Inr (JBool (f v)), w')"])
     (simp add: lift_world_def column_test_apply split: prod.splits sum.splits)

lemma resolver_local_bind:
  assumes m: "resolver_local this m" and f: "\<And>x. resolver_local this (f x)"
  shows "resolver_local this (js_bind m f)"
proof -
  from m obtain F where F: "\<And>s. m s = lift_world (F (columnResolver (heap s this))) s"
    unfolding resolver_local_def by blast
  from f have "\<forall>x. \<exists>G. \<forall>s. f x s = lift_world (G (columnResolver (heap s this))) s"
    unfolding resolver_local_def by blast
  then obtain G where G: "\<And>x s. f x s = lift_world (G x (columnResolver (heap s this))) s"
    by metis
  let ?H = "\<lambda>r w. case F r w of (Inl e, w') \<Rightarrow> (Inl e, w') | (Inr x, w') \<Rightarrow> G x r w'"
  have "\<forall>s. js_bind m f s = lift_world (?H (columnResolver (heap s this))) s"
    by (simp add: js_bind_def F G lift_world_def split: prod.splits sum.splits)
  then show ?thesis unfolding resolver_local_def by (rule exI [of _ ?H])
qed

lemma resolver_local_reduce:
  assumes "\<And>acc x. x \<in> set xs \<Longrightarrow> resolver_local this (f acc x)"
  shows "resolver_local this (js_reduce f xs acc)"
  using assms
proof (induction xs arbitrary: acc)
  case Nil
  show ?case by (simp add: resolver_local_return)
next
  case (Cons x xs)
  show ?case
    by (simp, rule resolver_local_bind) (simp_all add: Cons)
qed

lemma resolver_local_call:
  assumes "shaped this wh c"
  shows "resolver_local this (call (callback c))"
  using assms
  by (auto simp: shaped_def call_def resolver_local_throw resolver_local_column_test)

lemma resolver_local_evaluateWhereClauses:
  assumes "list_all2 (shaped this) ws cs"
  shows "resolver_local this (evaluateWhereClauses q cs)"
  unfolding evaluateWhereClauses_def
proof (rule resolver_local_reduce)
  fix acc c
  assume "c \<in> set cs"
  with assms obtain wh where "shaped this wh c"
    by (auto simp: list_all2_conv_all_nth in_set_conv_nth)
  then have call: "resolver_local this (call (callback c))"
    by (rule resolver_local_call)
  show "resolver_local this
          (if acc = JNull then call (callback c)
           else js_bind (call (callback c))
                  (\<lambda>value.
                     if boolean c = ''and'' then js_return (js_and acc value)
                     else if boolean c = ''or'' then js_return (js_or acc value)
                     else js_return JUndefined))"
    by (auto intro!: resolver_local_bind call resolver_local_return)
qed

lemma resolver_local_compiled:
  assumes "compile this q s0 = (Inr p, s1)"
  shows "resolver_local this p"
proof (cases "wheres q")
  case None
  with assms have "p = js_return (JBool True)"
    by (simp add: compile_def compileWheres_def js_return_def)
  then show ?thesis by (simp add: resolver_local_return)
next
  case (Some ws)
  show ?thesis
  proof (cases "ws = []")
    case True
    with Some assms have "p = js_return (JBool True)"
      by (simp add: compile_def compileWheres_def js_return_def)
    then show ?thesis by (simp add: resolver_local_return)
  next
    case False
    with Some assms obtain cs s' where
      cs: "compileWheresToArray this q s0 = (Inr cs, s')" and
      p: "p = (if length cs = 0 then js_return (JBool True) else evaluateWhereClauses q cs)"
      by (auto simp: compile_def compileWheres_def js_bind_def js_return_def
          split: prod.splits sum.splits if_splits)
    from compileWheresToArray_shaped [OF cs] obtain ws' where
      "list_all2 (shaped this) ws' cs" by blast
    then have "resolver_local this (evaluateWhereClauses q cs)"
      by (rule resolver_local_evaluateWhereClauses)
    with p show ?thesis by (simp add: resolver_local_return)
  qed
qed

section \<open>The reduction over compiled clauses\<close>

lemma reduce_combine:
  assumes "list_all2 (shaped this) ws cs"
      and "\<forall>c\<in>set cs. boolean c = ''and'' \<or> boolean c = ''or''"
  shows "js_reduce
           (\<lambda>result clause.
              if result = JNull then call (callback clause)
              else
                js_bind (call (callback clause))
                  (\<lambda>value.
                     if boolean clause = ''and'' then js_return (js_and result value)
                     else if boolean clause = ''or'' then js_return (js_or result value)
                     else js_return JUndefined))
           cs (JBool a) s
         = js_bind (spec_combine a cs) (\<lambda>b. js_return (JBool b)) s"
  using assms
proof (induction arbitrary: a s rule: list_all2_induct)
  case Nil
  show ?case by (simp add: js_bind_def js_return_def)
next
  case (Cons wh ws c cs)
  from Cons.prems have conn: "boolean c = ''and'' \<or> boolean c = ''or''"
    and rest: "\<forall>c\<in>set cs. boolean c = ''and'' \<or> boolean c = ''or''" by simp_all
  note IH = Cons.IH [OF rest]
  from shaped_call [OF Cons.hyps(1), of s] show ?case
  proof (elim disjE exE)
    fix e s'
    assume "call (callback c) s = (Inl e, s')"
    then show ?thesis by (simp add: js_bind_def)
  next
    fix b s'
    assume "call (callback c) s = (Inr (JBool b), s')"
    with conn show ?thesis
      by (auto simp: js_bind_apply js_return_apply js_and_def js_or_def IH)
  qed
qed

lemma reduce_trace:
  assumes "list_all2 (shaped this) ws cs"
      and "\<forall>c\<in>set cs. callback c \<noteq> None"
      and "\<forall>name w. \<exists>v w'. columnResolver (heap t this) name w = (Inr v, w')"
  shows "\<exists>v. js_reduce
           (\<lambda>result clause.
              if result = JNull then call (callback clause)
              else
                js_bind (call (callback clause))
                  (\<lambda>value.
                     if boolean clause = ''and'' then js_return (js_and result value)
                     else if boolean clause = ''or'' then js_return (js_or result value)
                     else js_return JUndefined))
           cs acc t
         = (Inr v, t\<lparr>world :=
              foldl (\<lambda>w wh. snd (columnResolver (heap t this) (where_column wh) w)) (world t) ws\<rparr>)"
  using assms
proof (induction arbitrary: acc t rule: list_all2_induct)
  case Nil
  show ?case by (simp add: js_return_def)
next
  case (Cons wh ws c cs)
  let ?r = "columnResolver (heap t this)"
  from Cons.prems(1) Cons.hyps(1) obtain f where
    cb: "callback c = Some (column_test this (where_column wh) f)"
    by (auto simp: shaped_def)
  from Cons.prems(2) obtain v w1 where r: "?r (where_column wh) (world t) = (Inr v, w1)"
    by blast
  let ?t1 = "t\<lparr>world := w1\<rparr>"
  have call: "call (callback c) t = (Inr (JBool (f v)), ?t1)"
    by (simp add: cb call_def column_test_apply r)
  have rest: "\<forall>c\<in>set cs. callback c \<noteq> None" using Cons.prems(1) by simp
  have res: "\<forall>name w. \<exists>v w'. columnResolver (heap ?t1 this) name w = (Inr v, w')"
    using Cons.prems(2) by simp
  note IH = Cons.IH [OF rest res]
  have w1: "w1 = snd (?r (where_column wh) (world t))" by (simp add: r)
  show ?case
    using IH [of "JBool (f v)"] IH [of "js_and acc (JBool (f v))"]
      IH [of "js_or acc (JBool (f v))"] IH [of JUndefined]
    by (simp add: js_bind_apply call js_return_apply w1 [symmetric])
qed

section \<open>The claims\<close>

text \<open>
  Claim C1. The predicate \<open>evaluateWhereClauses\<close> returns folds the compiled clauses
  from left to right: on a list compiled by \<open>compileWheresToArray\<close> whose clauses after
  the first are joined by \<open>and\<close> or \<open>or\<close>, it is the fold of the specification. The
  accumulator starts unset, the result of the first clause becomes the accumulator
  whatever that clause's connective is, each later result is joined by the clause's own
  connective (conjunction for \<open>and\<close>, disjunction for \<open>or\<close>), and the last accumulator
  is the result.
\<close>

theorem evaluateWhereClauses_fold:
  assumes "compileWheresToArray this q s0 = (Inr cs, s1)"
      and "\<forall>c\<in>set (tl cs). boolean c = ''and'' \<or> boolean c = ''or''"
  shows "evaluateWhereClauses q cs = spec_fold cs"
proof (cases cs)
  case Nil
  then show ?thesis by (simp add: evaluateWhereClauses_def spec_fold_def)
next
  case (Cons c cs')
  from compileWheresToArray_shaped [OF assms(1)] Cons obtain wh ws' where
    c: "shaped this wh c" and cs': "list_all2 (shaped this) ws' cs'"
    by (auto simp: list_all2_Cons2)
  from assms(2) Cons have conn: "\<forall>c\<in>set cs'. boolean c = ''and'' \<or> boolean c = ''or''"
    by simp
  show ?thesis
  proof (rule ext)
    fix s
    from shaped_call [OF c, of s]
    show "evaluateWhereClauses q cs s = spec_fold cs s"
    proof (elim disjE exE)
      fix e s'
      assume "call (callback c) s = (Inl e, s')"
      then show ?thesis
        by (simp add: evaluateWhereClauses_def spec_fold_def Cons js_bind_def)
    next
      fix b s'
      assume "call (callback c) s = (Inr (JBool b), s')"
      then show ?thesis
        using reduce_combine [OF cs' conn, of b s']
        by (simp add: evaluateWhereClauses_def spec_fold_def Cons js_bind_apply)
    qed
  qed
qed

text \<open>
  The two clauses \<open>status = "active"\<close> and \<open>age >= 18\<close>, joined by \<open>and\<close>, on rows
  of age 17: the compiled list satisfies the hypotheses, and the predicate is false
  whatever the status.
\<close>

theorem evaluateWhereClauses_fold_witness:
  "compileWheresToArray 0 adult_query (example_state row_resolver (example_row ''active''))
     = (Inr adult_clauses, example_state row_resolver (example_row ''active''))
   \<and> boolean (adult_clauses ! 1) = ''and''
   \<and> evaluateWhereClauses adult_query adult_clauses = spec_fold adult_clauses
   \<and> evaluateWhereClauses adult_query adult_clauses
        (example_state row_resolver (example_row ''active''))
      = (Inr (JBool False), example_state row_resolver (example_row ''active''))
   \<and> evaluateWhereClauses adult_query adult_clauses
        (example_state row_resolver (example_row ''retired''))
      = (Inr (JBool False), example_state row_resolver (example_row ''retired''))"
  (is "?compiled \<and> ?conn \<and> ?folds \<and> ?run1 \<and> ?run2")
proof -
  have compiled: ?compiled
    by (simp add: adult_query_def adult_clauses_def compileWheresToArray_def compile_where_def
        where_method_def js_bind_apply js_return_apply basic_where_def)
  have conn: "\<forall>c\<in>set (tl adult_clauses). boolean c = ''and'' \<or> boolean c = ''or''"
    by (simp add: adult_clauses_def)
  have folds: ?folds
    by (rule evaluateWhereClauses_fold [OF compiled conn])
  have run: "spec_fold adult_clauses (example_state row_resolver (example_row status))
      = (Inr (JBool False), example_state row_resolver (example_row status))" for status
    by (simp add: spec_fold_def adult_clauses_def call_def whereBasic_def basic_where_def
        js_bind_apply js_return_apply column_def example_state_def row_resolver_def
        example_row_def js_eq_def js_ge_def)
  from compiled folds run show ?thesis by (simp add: adult_clauses_def)
qed

text \<open>
  Claim C2. Nothing is short-circuited: when every clause of a compiled query has an
  evaluator and the resolver returns, an invocation of the predicate returns, and it has
  called the resolver once for each clause, in the order of the clauses, whatever the
  connectives and the earlier results are. The caller's data after the invocation is the
  data after those calls, one for each clause.
\<close>

theorem eager_evaluation:
  assumes ws: "wheres q = Some ws"
      and p: "compile this q s0 = (Inr p, s1)"
      and cs: "compileWheresToArray this q s0 = (Inr cs, s2)"
      and defined: "\<forall>c\<in>set cs. callback c \<noteq> None"
      and returns: "\<forall>name w. \<exists>v w'. columnResolver (heap t this) name w = (Inr v, w')"
  shows "\<exists>v. p t =
           (Inr v, t\<lparr>world :=
              foldl (\<lambda>w wh. snd (columnResolver (heap t this) (where_column wh) w)) (world t) ws\<rparr>)"
proof (cases "ws = []")
  case True
  with ws p have "p = js_return (JBool True)"
    by (simp add: compile_def compileWheres_def js_return_def)
  with True show ?thesis by (simp add: js_return_def)
next
  case False
  from compileWheresToArray_shaped [OF cs] ws have sh: "list_all2 (shaped this) ws cs"
    by simp
  with False have "cs \<noteq> []" by auto
  with False ws p cs have "p = evaluateWhereClauses q cs"
    by (simp add: compile_def compileWheres_def js_bind_def js_return_def)
  with reduce_trace [OF sh defined returns] show ?thesis
    by (simp add: evaluateWhereClauses_def)
qed

text \<open>
  A resolver that counts its calls, on the two clauses joined by \<open>and\<close>: the first
  clause is false, the result is false, and the count is two.
\<close>

theorem eager_evaluation_witness:
  "\<exists>p. compile 0 adult_query (example_state (counting_resolver (example_row ''retired'')) 0)
          = (Inr p, example_state (counting_resolver (example_row ''retired'')) 0)
      \<and> p (example_state (counting_resolver (example_row ''retired'')) 0)
          = (Inr (JBool False), example_state (counting_resolver (example_row ''retired'')) 2)"
proof -
  let ?s = "example_state (counting_resolver (example_row ''retired'')) 0"
  let ?cs = "[\<lparr>boolean = ''and'',
        callback = whereBasic 0 adult_query (basic_where ''and'' ''status'' ''='' (JStr ''active''))\<rparr>,
      \<lparr>boolean = ''and'',
        callback = whereBasic 0 adult_query (basic_where ''and'' ''age'' ''>='' (JNum (Finite 18)))\<rparr>]
      :: nat clause list"
  have ws: "wheres adult_query = Some [basic_where ''and'' ''status'' ''='' (JStr ''active''),
                     basic_where ''and'' ''age'' ''>='' (JNum (Finite 18))]"
    by (simp add: adult_query_def)
  have cs: "compileWheresToArray 0 adult_query ?s = (Inr ?cs, ?s)"
    by (simp add: adult_query_def compileWheresToArray_def compile_where_def
        where_method_def js_bind_apply js_return_apply basic_where_def)
  have p: "compile 0 adult_query ?s = (Inr (evaluateWhereClauses adult_query ?cs), ?s)"
    by (simp add: compile_def compileWheres_def js_bind_apply js_return_apply cs ws)
  have defined: "\<forall>c\<in>set ?cs. callback c \<noteq> None"
    by (simp add: whereBasic_def basic_where_def)
  have returns: "\<forall>name w. \<exists>v w'. columnResolver (heap ?s 0) name w = (Inr v, w')"
    by (simp add: example_state_def counting_resolver_def)
  from eager_evaluation [OF ws p cs defined returns]
  have count: "world (snd (evaluateWhereClauses adult_query ?cs ?s)) = 2"
    by (auto simp: example_state_def counting_resolver_def basic_where_def)
  have "evaluateWhereClauses adult_query ?cs ?s
          = (Inr (JBool False), example_state (counting_resolver (example_row ''retired'')) 2)"
    using count
    by (simp add: evaluateWhereClauses_def call_def whereBasic_def basic_where_def
        js_bind_apply js_return_apply column_def example_state_def counting_resolver_def
        example_row_def js_eq_def js_ge_def js_and_def)
  with p show ?thesis by simp
qed

text \<open>
  Claim C3. For a query with no \<open>wheres\<close> field or with an empty list of clauses,
  \<open>compile\<close> and \<open>compileWheres\<close> return, without any effect, a predicate that returns
  \<open>true\<close> in every state, so for every resolver.
\<close>

theorem compile_no_wheres:
  assumes "wheres q = None \<or> wheres q = Some []"
  shows "\<exists>p. compile this q s = (Inr p, s) \<and> compileWheres this q s = (Inr p, s)
            \<and> (\<forall>t. p t = (Inr (JBool True), t))"
  using assms by (auto simp: compile_def compileWheres_def js_return_def)

theorem compile_no_wheres_witness:
  "(\<exists>p. compile 0 \<lparr>wheres = None\<rparr> (example_state (counting_resolver (\<lambda>_. JNull)) 0)
            = (Inr p, example_state (counting_resolver (\<lambda>_. JNull)) 0)
        \<and> p (example_state (counting_resolver (\<lambda>_. JNull)) 0)
            = (Inr (JBool True), example_state (counting_resolver (\<lambda>_. JNull)) 0))
   \<and> (\<exists>p. compile 0 \<lparr>wheres = Some []\<rparr> (example_state (counting_resolver (\<lambda>_. JNull)) 0)
            = (Inr p, example_state (counting_resolver (\<lambda>_. JNull)) 0)
        \<and> p (example_state (counting_resolver (\<lambda>_. JNull)) 0)
            = (Inr (JBool True), example_state (counting_resolver (\<lambda>_. JNull)) 0))"
  using compile_no_wheres [of "\<lparr>wheres = None\<rparr>" 0 "example_state (counting_resolver (\<lambda>_. JNull)) 0"]
    compile_no_wheres [of "\<lparr>wheres = Some []\<rparr>" 0 "example_state (counting_resolver (\<lambda>_. JNull)) 0"]
  by auto

text \<open>
  Claim C4. For a Basic clause whose operator is one of the seven operators (equal, the
  two spellings of not equal, greater, greater or equal, less, less or equal),
  \<open>whereBasic\<close> returns an evaluator that, when it runs, calls the resolver of that
  moment with the column and compares the value with the clause's value: by loose
  equality for the first, by its negation for the two spellings of not equal, and by the
  ordering comparison for the other four. An error the resolver throws is the
  evaluator's.
\<close>

theorem whereBasic_operator:
  assumes "where_operator wh \<in> {''='', ''!='', ''<>'', ''>'', ''>='', ''<'', ''<=''}"
  shows "\<exists>ev. whereBasic this q wh = Some ev \<and>
     (\<forall>s. ev s =
        (case columnResolver (heap s this) (where_column wh) (world s) of
           (Inl e, w) \<Rightarrow> (Inl e, s\<lparr>world := w\<rparr>)
         | (Inr c, w) \<Rightarrow>
             (Inr (JBool
                (if where_operator wh = ''='' then IsLooselyEqual c (where_value wh)
                 else if where_operator wh = ''!='' \<or> where_operator wh = ''<>''
                   then \<not> IsLooselyEqual c (where_value wh)
                 else if where_operator wh = ''>'' then IsLessThan (where_value wh) c = Some True
                 else if where_operator wh = ''>='' then IsLessThan c (where_value wh) = Some False
                 else if where_operator wh = ''<'' then IsLessThan c (where_value wh) = Some True
                 else IsLessThan (where_value wh) c = Some False)),
              s\<lparr>world := w\<rparr>)))"
  using assms
  by (auto simp: whereBasic_def Let_def column_test_apply [unfolded column_test_def]
      js_eq_def js_ne_def js_gt_def js_ge_def js_lt_def js_le_def
      split: prod.splits sum.splits)

text \<open>
  The operator equal, column \<open>age\<close>, value 30: the evaluator, and the predicate
  compiled from the query of this one clause, are true when the resolver returns 30 and
  false when it returns 31.
\<close>

theorem whereBasic_operator_witness:
  "(\<exists>ev. whereBasic 0 age_query (basic_where ''and'' ''age'' ''='' (JNum (Finite 30))) = Some ev
      \<and> ev (example_state (constant_resolver (JNum (Finite 30))) ())
          = (Inr (JBool True), example_state (constant_resolver (JNum (Finite 30))) ())
      \<and> ev (example_state (constant_resolver (JNum (Finite 31))) ())
          = (Inr (JBool False), example_state (constant_resolver (JNum (Finite 31))) ()))
   \<and> (\<exists>p. compile 0 age_query (example_state (constant_resolver (JNum (Finite 30))) ())
             = (Inr p, example_state (constant_resolver (JNum (Finite 30))) ())
      \<and> p (example_state (constant_resolver (JNum (Finite 30))) ())
          = (Inr (JBool True), example_state (constant_resolver (JNum (Finite 30))) ())
      \<and> p (example_state (constant_resolver (JNum (Finite 31))) ())
          = (Inr (JBool False), example_state (constant_resolver (JNum (Finite 31))) ()))"
proof -
  have op: "where_operator (basic_where ''and'' ''age'' ''='' (JNum (Finite 30)))
              \<in> {''='', ''!='', ''<>'', ''>'', ''>='', ''<'', ''<=''}"
    by (simp add: basic_where_def)
  from whereBasic_operator [OF op, of 0 age_query]
  show ?thesis
    by (simp add: evaluation age_query_def js_eq_def)
qed

text \<open>
  Claim C5. For every column, list of values and state, so for every resolver, the
  evaluator of a NotIn clause returns the negation of what the evaluator of the In clause
  with the same column and values returns, with the same effect; when the resolver throws,
  both throw the same error.
\<close>

theorem whereNotIn_negates_whereIn:
  "\<exists>i n. whereIn this q wh = Some i \<and> whereNotIn this q wh = Some n \<and>
     (\<forall>s. case i s of
            (Inl e, s') \<Rightarrow> n s = (Inl e, s')
          | (Inr v, s') \<Rightarrow> (\<exists>b. v = JBool b \<and> n s = (Inr (JBool (\<not> b)), s')))"
  by (simp add: whereIn_test whereNotIn_test column_test_apply indexOf_absent
      split: prod.splits sum.splits)

theorem whereNotIn_negates_whereIn_witness:
  "\<exists>i n. whereIn 0 \<lparr>wheres = None\<rparr>
            (list_where ''In'' ''and'' ''role'' [JStr ''admin'', JStr ''editor'']) = Some i
     \<and> whereNotIn 0 \<lparr>wheres = None\<rparr>
            (list_where ''NotIn'' ''and'' ''role'' [JStr ''admin'', JStr ''editor'']) = Some n
     \<and> i (example_state (constant_resolver (JStr ''editor'')) ())
          = (Inr (JBool True), example_state (constant_resolver (JStr ''editor'')) ())
     \<and> n (example_state (constant_resolver (JStr ''editor'')) ())
          = (Inr (JBool False), example_state (constant_resolver (JStr ''editor'')) ())
     \<and> i (example_state (constant_resolver (JStr ''guest'')) ())
          = (Inr (JBool False), example_state (constant_resolver (JStr ''guest'')) ())
     \<and> n (example_state (constant_resolver (JStr ''guest'')) ())
          = (Inr (JBool True), example_state (constant_resolver (JStr ''guest'')) ())"
  using whereNotIn_negates_whereIn [of 0 "\<lparr>wheres = None\<rparr>"
      "list_where ''In'' ''and'' ''role'' [JStr ''admin'', JStr ''editor'']"]
  by (simp add: whereIn_test whereNotIn_test column_test_apply list_where_def indexOf_def
      example_state_def constant_resolver_def)

text \<open>
  Claim C6. The evaluator of a Null clause returns true exactly when the resolved value
  is the empty string or \<open>null\<close>, and the evaluator of a NotNull clause returns true
  exactly when it is neither. (The value \<open>undefined\<close> is neither.)
\<close>

theorem whereNull_whereNotNull:
  "\<exists>nl nn. whereNull this q wh = Some nl \<and> whereNotNull this q wh = Some nn \<and>
     (\<forall>s. case columnResolver (heap s this) (where_column wh) (world s) of
            (Inl e, w) \<Rightarrow> nl s = (Inl e, s\<lparr>world := w\<rparr>) \<and> nn s = (Inl e, s\<lparr>world := w\<rparr>)
          | (Inr v, w) \<Rightarrow>
              nl s = (Inr (JBool (v = JStr [] \<or> v = JNull)), s\<lparr>world := w\<rparr>) \<and>
              nn s = (Inr (JBool (v \<noteq> JStr [] \<and> v \<noteq> JNull)), s\<lparr>world := w\<rparr>))"
  by (simp add: whereNull_test whereNotNull_test column_test_apply indexOf_absent indexOf_null
      split: prod.splits sum.splits)

theorem whereNull_whereNotNull_witness:
  "\<exists>nl nn. whereNull 0 \<lparr>wheres = None\<rparr> (list_where ''Null'' ''and'' ''name'' []) = Some nl
     \<and> whereNotNull 0 \<lparr>wheres = None\<rparr> (list_where ''NotNull'' ''and'' ''name'' []) = Some nn
     \<and> nl (example_state (constant_resolver (JStr [])) ())
          = (Inr (JBool True), example_state (constant_resolver (JStr [])) ())
     \<and> nn (example_state (constant_resolver (JStr [])) ())
          = (Inr (JBool False), example_state (constant_resolver (JStr [])) ())
     \<and> nl (example_state (constant_resolver JNull) ())
          = (Inr (JBool True), example_state (constant_resolver JNull) ())
     \<and> nn (example_state (constant_resolver JNull) ())
          = (Inr (JBool False), example_state (constant_resolver JNull) ())
     \<and> nl (example_state (constant_resolver (JStr ''x'')) ())
          = (Inr (JBool False), example_state (constant_resolver (JStr ''x'')) ())
     \<and> nn (example_state (constant_resolver (JStr ''x'')) ())
          = (Inr (JBool True), example_state (constant_resolver (JStr ''x'')) ())
     \<and> nl (example_state (constant_resolver JUndefined) ())
          = (Inr (JBool False), example_state (constant_resolver JUndefined) ())
     \<and> nn (example_state (constant_resolver JUndefined) ())
          = (Inr (JBool True), example_state (constant_resolver JUndefined) ())"
  using whereNull_whereNotNull [of 0 "\<lparr>wheres = None\<rparr>" "list_where ''Null'' ''and'' ''name'' []"]
  by (simp add: whereNull_test whereNotNull_test column_test_apply list_where_def indexOf_def
      example_state_def constant_resolver_def)

text \<open>
  Claim C7. Column resolution is bound late. Every evaluator a clause method returns,
  run after \<open>setColumnResolver\<close> has installed a resolver \<open>r\<close>, calls \<open>r\<close> with the
  clause's column on the caller's data of that moment and tests the value it returns.
  And for every query there is one function \<open>F\<close> of a resolver and the caller's data
  such that every predicate compiled from the query, in whatever state and so with
  whatever resolver installed when it was compiled, when invoked after
  \<open>setColumnResolver\<close> has installed \<open>r\<close>, returns what \<open>F\<close> gives for \<open>r\<close>: the
  invocation follows the new resolver, not the one of the time of compilation.
\<close>

theorem late_binding:
  "(\<forall>key m ev. where_method key = Some m \<longrightarrow> m this q wh = Some ev \<longrightarrow>
      (\<exists>f. \<forall>(r :: 'w resolver) t. ev (snd (setColumnResolver this r t)) =
         (case r (where_column wh) (world t) of
            (Inl e, w) \<Rightarrow> (Inl e, (snd (setColumnResolver this r t))\<lparr>world := w\<rparr>)
          | (Inr v, w) \<Rightarrow> (Inr (JBool (f v)), (snd (setColumnResolver this r t))\<lparr>world := w\<rparr>))))
   \<and> (\<exists>F. \<forall>(s0 :: 'w state) p s1 r t. compile this q s0 = (Inr p, s1) \<longrightarrow>
         p (snd (setColumnResolver this r t)) =
           (case F r (world t) of (x, w) \<Rightarrow> (x, (snd (setColumnResolver this r t))\<lparr>world := w\<rparr>)))"
proof (intro conjI allI impI)
  fix key and m :: "addr \<Rightarrow> query \<Rightarrow> where_clause \<Rightarrow> ('w, jsval) js option" and ev
  assume "where_method key = Some m" and ev: "m this q wh = Some ev"
  from where_method_shaped [OF this(1), of this wh q] ev obtain f where
    "ev = column_test this (where_column wh) f"
    by (auto simp: shaped_def)
  then have "\<forall>r t. ev (snd (setColumnResolver this r t)) =
         (case r (where_column wh) (world t) of
            (Inl e, w) \<Rightarrow> (Inl e, (snd (setColumnResolver this r t))\<lparr>world := w\<rparr>)
          | (Inr v, w) \<Rightarrow> (Inr (JBool (f v)), (snd (setColumnResolver this r t))\<lparr>world := w\<rparr>))"
    by (simp add: column_test_apply setColumnResolver_def split: prod.splits sum.splits)
  then show "\<exists>f. \<forall>r t. ev (snd (setColumnResolver this r t)) =
         (case r (where_column wh) (world t) of
            (Inl e, w) \<Rightarrow> (Inl e, (snd (setColumnResolver this r t))\<lparr>world := w\<rparr>)
          | (Inr v, w) \<Rightarrow> (Inr (JBool (f v)), (snd (setColumnResolver this r t))\<lparr>world := w\<rparr>))"
    by (rule exI [of _ f])
next
  define s :: "'w state" where "s = undefined"
  from console_only_compile [of this q] obtain R L where
    RL: "\<And>s :: 'w state. compile this q s = (R, s\<lparr>console := console s @ L\<rparr>)"
    unfolding console_only_def by blast
  show "\<exists>F. \<forall>(s0 :: 'w state) p s1 r t. compile this q s0 = (Inr p, s1) \<longrightarrow>
         p (snd (setColumnResolver this r t)) =
           (case F r (world t) of (x, w) \<Rightarrow> (x, (snd (setColumnResolver this r t))\<lparr>world := w\<rparr>))"
  proof (cases R)
    case (Inl e)
    with RL show ?thesis by simp
  next
    case (Inr p0)
    with RL [of s] have "compile this q s = (Inr p0, s\<lparr>console := console s @ L\<rparr>)"
      by simp
    from resolver_local_compiled [OF this] obtain F where
      F: "\<And>t. p0 t = lift_world (F (columnResolver (heap t this))) t"
      unfolding resolver_local_def by blast
    have "\<forall>s0 p s1 r t. compile this q s0 = (Inr p, s1) \<longrightarrow>
         p (snd (setColumnResolver this r t)) =
           (case F r (world t) of (x, w) \<Rightarrow> (x, (snd (setColumnResolver this r t))\<lparr>world := w\<rparr>))"
      using RL Inr by (simp add: F lift_world_def setColumnResolver_def split: prod.splits)
    then show ?thesis by (rule exI [of _ F])
  qed
qed

text \<open>
  A grammar constructed with a resolver that returns 30 compiles the query
  \<open>age = 30\<close>: the predicate is true; after \<open>setColumnResolver\<close> installs a resolver
  that returns 31, the same predicate is false.
\<close>

theorem late_binding_witness:
  "\<exists>p s1 s2.
      constructor 0 (Some (constant_resolver (JNum (Finite 30))))
        (example_state (constant_resolver JNull) ()) = (Inr 0, s1)
    \<and> compile 0 age_query s1 = (Inr p, s1)
    \<and> p s1 = (Inr (JBool True), s1)
    \<and> setColumnResolver 0 (constant_resolver (JNum (Finite 31))) s1 = (Inr 0, s2)
    \<and> p s2 = (Inr (JBool False), s2)"
  using late_binding [of 0 age_query "basic_where ''and'' ''age'' ''='' (JNum (Finite 30))"]
  by (simp add: evaluation constructor_def age_query_def js_eq_def)

text \<open>
  Claim C8. Compilation does not touch the data: the result of \<open>compile\<close> and of
  \<open>compileWheres\<close> is the same in every state, whatever the resolver and the caller's
  data are, and the only effect is on the console, so the resolver is not called. The
  predicate they return reads the state it is invoked in: what an invocation returns and
  does to the caller's data is a function of the resolver and the caller's data of that
  invocation.
\<close>

theorem compile_lazy:
  "\<exists>R L. (\<forall>s :: 'w state. compile this q s = (R, s\<lparr>console := console s @ L\<rparr>)
               \<and> compileWheres this q s = (R, s\<lparr>console := console s @ L\<rparr>))
        \<and> (\<forall>p. R = Inr p \<longrightarrow>
             (\<exists>F. \<forall>t. p t = (case F (columnResolver (heap t this)) (world t) of
                                (x, w) \<Rightarrow> (x, t\<lparr>world := w\<rparr>))))"
proof -
  define s0 :: "'w state" where "s0 = undefined"
  from console_only_compile [of this q] obtain R L where
    RL: "\<And>s :: 'w state. compile this q s = (R, s\<lparr>console := console s @ L\<rparr>)"
    unfolding console_only_def by blast
  have "\<exists>F. \<forall>t. p t = (case F (columnResolver (heap t this)) (world t) of
                                (x, w) \<Rightarrow> (x, t\<lparr>world := w\<rparr>))" if "R = Inr p" for p
  proof -
    from that RL [of s0] have "compile this q s0 = (Inr p, s0\<lparr>console := console s0 @ L\<rparr>)"
      by simp
    from resolver_local_compiled [OF this] show ?thesis
      by (simp add: resolver_local_def lift_world_def)
  qed
  with RL show ?thesis by (auto simp: compile_def)
qed

text \<open>
  A resolver that counts its calls: the count is 0 after the compilation, 1 after the
  first invocation and 2 after the second.
\<close>

theorem compile_lazy_witness:
  "\<exists>p. compile 0 age_query (example_state (counting_resolver (\<lambda>_. JNum (Finite 30))) 0)
         = (Inr p, example_state (counting_resolver (\<lambda>_. JNum (Finite 30))) 0)
     \<and> p (example_state (counting_resolver (\<lambda>_. JNum (Finite 30))) 0)
         = (Inr (JBool True), example_state (counting_resolver (\<lambda>_. JNum (Finite 30))) 1)
     \<and> p (example_state (counting_resolver (\<lambda>_. JNum (Finite 30))) 1)
         = (Inr (JBool True), example_state (counting_resolver (\<lambda>_. JNum (Finite 30))) 2)"
  using compile_lazy [of 0 age_query]
  by (simp add: evaluation age_query_def js_eq_def)

text \<open>
  Claim C9. The claim says that a Basic clause with an operator that is not one of the
  seven makes the compilation fail. The source does not: for the operator \<open>like\<close>,
  \<open>compile\<close> returns a predicate and writes nothing to the console, and the failure is
  a \<open>TypeError\<close> when the predicate is invoked.
\<close>

theorem unknown_operator_compiles:
  "\<exists>p. compile 0 like_query (example_state (constant_resolver (JNum (Finite 30))) ())
          = (Inr p, example_state (constant_resolver (JNum (Finite 30))) ())
      \<and> p (example_state (constant_resolver (JNum (Finite 30))) ())
          = (Inl TypeError, example_state (constant_resolver (JNum (Finite 30))) ())"
  by (simp add: evaluation like_query_def)

text \<open>
  Claim C10. Membership in the values of an In clause is strict equality: the evaluator
  is true exactly when some element of the list is strictly equal to the resolved value.
  The equal operator of a Basic clause is loose: when the column resolves to the string
  \<open>1\<close>, the Basic clause with the number 1 is true and the In clause whose only value
  is the number 1 is false.
\<close>

theorem whereIn_strict_membership:
  "(\<exists>i. whereIn this q wh = Some i \<and>
      (\<forall>s. i s =
         (case columnResolver (heap s this) (where_column wh) (world s) of
            (Inl e, w) \<Rightarrow> (Inl e, s\<lparr>world := w\<rparr>)
          | (Inr v, w) \<Rightarrow>
              (Inr (JBool (\<exists>x\<in>set (where_values wh). IsStrictlyEqual x v)), s\<lparr>world := w\<rparr>))))
   \<and> (\<exists>b i. whereBasic 0 \<lparr>wheres = None\<rparr> (basic_where ''and'' ''id'' ''='' (JNum (Finite 1))) = Some b
        \<and> whereIn 0 \<lparr>wheres = None\<rparr> (list_where ''In'' ''and'' ''id'' [JNum (Finite 1)]) = Some i
        \<and> b (example_state (constant_resolver (JStr ''1'')) ())
            = (Inr (JBool True), example_state (constant_resolver (JStr ''1'')) ())
        \<and> i (example_state (constant_resolver (JStr ''1'')) ())
            = (Inr (JBool False), example_state (constant_resolver (JStr ''1'')) ()))"
proof -
  have general: "\<exists>i. whereIn this q wh = Some i \<and>
      (\<forall>s. i s =
         (case columnResolver (heap s this) (where_column wh) (world s) of
            (Inl e, w) \<Rightarrow> (Inl e, s\<lparr>world := w\<rparr>)
          | (Inr v, w) \<Rightarrow>
              (Inr (JBool (\<exists>x\<in>set (where_values wh). IsStrictlyEqual x v)), s\<lparr>world := w\<rparr>)))"
    by (simp add: whereIn_test column_test_apply indexOf_def indexOf_from_member
        split: prod.splits sum.splits)
  have example:
    "\<exists>b i. whereBasic 0 \<lparr>wheres = None\<rparr> (basic_where ''and'' ''id'' ''='' (JNum (Finite 1))) = Some b
        \<and> whereIn 0 \<lparr>wheres = None\<rparr> (list_where ''In'' ''and'' ''id'' [JNum (Finite 1)]) = Some i
        \<and> b (example_state (constant_resolver (JStr ''1'')) ())
            = (Inr (JBool True), example_state (constant_resolver (JStr ''1'')) ())
        \<and> i (example_state (constant_resolver (JStr ''1'')) ())
            = (Inr (JBool False), example_state (constant_resolver (JStr ''1'')) ())"
    by (simp add: evaluation js_eq_def indexOf_def StringToNumber_1)
  from general example show ?thesis by blast
qed

text \<open>
  The values \<open>admin\<close> and \<open>editor\<close>: a column that resolves to \<open>editor\<close> is a
  member, a column that resolves to the number 1 is not.
\<close>

theorem whereIn_strict_membership_witness:
  "\<exists>i. whereIn 0 \<lparr>wheres = None\<rparr>
          (list_where ''In'' ''and'' ''role'' [JStr ''admin'', JStr ''editor'']) = Some i
     \<and> i (example_state (constant_resolver (JStr ''editor'')) ())
          = (Inr (JBool True), example_state (constant_resolver (JStr ''editor'')) ())
     \<and> i (example_state (constant_resolver (JNum (Finite 1))) ())
          = (Inr (JBool False), example_state (constant_resolver (JNum (Finite 1))) ())"
  using whereIn_strict_membership [of 0 "\<lparr>wheres = None\<rparr>"
      "list_where ''In'' ''and'' ''role'' [JStr ''admin'', JStr ''editor'']"]
  by (simp add: whereIn_test column_test_apply list_where_def indexOf_def
      example_state_def constant_resolver_def)

end
